theory Spec2Isabelle
  imports Main "HOL-Library.AList"
begin

section \<open>Python values, dictionaries and exceptions\<close>

text \<open>
  The handlers of \<^verbatim>\<open>main.py\<close> work on untyped dictionaries: request bodies,
  MongoDB documents and token payloads. A dictionary is an association list in
  insertion order; a value is one of the Python objects these dictionaries hold.
  \<open>VOid h\<close> is a BSON ObjectId whose hexadecimal text is \<open>h\<close>, \<open>VDate t\<close> a
  \<^verbatim>\<open>datetime\<close> at \<open>t\<close> seconds after the epoch (UTC). Strings are ASCII.
\<close>

datatype val = VNone | VBool bool | VInt int | VStr string | VOid string | VDate int

type_synonym dict = "(string \<times> val) list"

text \<open>\<^verbatim>\<open>d.get(k)\<close>, \<^verbatim>\<open>d.get(k, default)\<close>, \<^verbatim>\<open>k in d\<close>, \<^verbatim>\<open>d[k] = v\<close> and \<^verbatim>\<open>d.pop(k, None)\<close>.\<close>

definition py_get_default :: "dict \<Rightarrow> string \<Rightarrow> val \<Rightarrow> val" where
  "py_get_default d k dflt = (case map_of d k of None \<Rightarrow> dflt | Some v \<Rightarrow> v)"

definition py_get :: "dict \<Rightarrow> string \<Rightarrow> val" where
  "py_get d k = py_get_default d k VNone"

definition py_in :: "string \<Rightarrow> dict \<Rightarrow> bool" where
  "py_in k d = (map_of d k \<noteq> None)"

definition py_set :: "dict \<Rightarrow> string \<Rightarrow> val \<Rightarrow> dict" where
  "py_set d k v = AList.update k v d"

definition py_pop :: "dict \<Rightarrow> string \<Rightarrow> dict" where
  "py_pop d k = AList.delete k d"

text \<open>Truth value of an object, as \<^verbatim>\<open>if not x\<close> tests it.\<close>

fun truthy :: "val \<Rightarrow> bool" where
  "truthy VNone = False"
| "truthy (VBool b) = b"
| "truthy (VInt i) = (i \<noteq> 0)"
| "truthy (VStr s) = (s \<noteq> [])"
| "truthy (VOid h) = True"
| "truthy (VDate t) = True"

text \<open>
  What a handler can raise: \<^verbatim>\<open>HTTPException(status_code, detail)\<close>, which FastAPI
  turns into that response, or an exception of a library that no handler catches
  (an internal server error for the client).
\<close>

datatype exn = HTTPException nat string | ValueError string | TypeError string

fun status_code :: "exn \<Rightarrow> nat" where
  "status_code (HTTPException c d) = c"
| "status_code (ValueError m) = 500"
| "status_code (TypeError m) = 500"

subsection \<open>Strings\<close>

text \<open>\<^verbatim>\<open>str.lower()\<close> on ASCII text, and \<^verbatim>\<open>s.partition(" ")\<close> without its middle component.\<close>

definition lower_char :: "char \<Rightarrow> char" where
  "lower_char c =
     (let n = (of_char c :: nat) in if 65 \<le> n \<and> n \<le> 90 then char_of (n + 32) else c)"

definition py_lower :: "string \<Rightarrow> string" where
  "py_lower s = map lower_char s"

definition partition_space :: "string \<Rightarrow> string \<times> string" where
  "partition_space s =
     (takeWhile (\<lambda>c. c \<noteq> CHR '' '') s,
      case dropWhile (\<lambda>c. c \<noteq> CHR '' '') s of [] \<Rightarrow> [] | sep # rest \<Rightarrow> rest)"

text \<open>Decimal text of a number, as \<^verbatim>\<open>str(n)\<close> prints it.\<close>

definition digit_char :: "nat \<Rightarrow> char" where
  "digit_char d = ''0123456789'' ! d"

definition digit_val :: "char \<Rightarrow> nat option" where
  "digit_val c = map_of (zip ''0123456789'' [0..<10]) c"

fun dec_nat :: "nat \<Rightarrow> string" where
  "dec_nat n = (if n < 10 then [digit_char n] else dec_nat (n div 10) @ [digit_char (n mod 10)])"

declare dec_nat.simps [simp del]

definition dec_int :: "int \<Rightarrow> string" where
  "dec_int i = (if i < 0 then CHR ''-'' # dec_nat (nat (- i)) else dec_nat (nat i))"

fun undec_nat :: "string \<Rightarrow> nat \<Rightarrow> nat option" where
  "undec_nat [] acc = Some acc"
| "undec_nat (c # cs) acc =
     (case digit_val c of None \<Rightarrow> None | Some d \<Rightarrow> undec_nat cs (10 * acc + d))"

definition undec_int :: "string \<Rightarrow> int option" where
  "undec_int s =
     (case s of
        [] \<Rightarrow> None
      | c # cs \<Rightarrow>
          if c = CHR ''-'' then (if cs = [] then None else map_option (\<lambda>n. - int n) (undec_nat cs 0))
          else map_option int (undec_nat s 0))"

section \<open>The environment of the process\<close>

text \<open>
  What the program takes from outside itself: the variable \<^verbatim>\<open>JWT_SECRET\<close> of the
  process environment, the two cryptographic primitives behind the libraries
  (HMAC-SHA256 of a key and a message, as text; the bcrypt checksum of a
  configuration string and a password), and the text Python prints for a
  \<^verbatim>\<open>datetime\<close>. Nothing is assumed of the primitives: every function below takes
  them as they come.
\<close>

record env =
  getenv_JWT_SECRET :: "string option"
  hmac_sha256 :: "string \<Rightarrow> string \<Rightarrow> string"
  bcrypt :: "string \<Rightarrow> string \<Rightarrow> string"
  str_datetime :: "int \<Rightarrow> string"

text \<open>\<^verbatim>\<open>str(x)\<close>.\<close>

fun py_str :: "env \<Rightarrow> val \<Rightarrow> string" where
  "py_str E VNone = ''None''"
| "py_str E (VBool b) = (if b then ''True'' else ''False'')"
| "py_str E (VInt i) = dec_int i"
| "py_str E (VStr s) = s"
| "py_str E (VOid h) = h"
| "py_str E (VDate t) = str_datetime E t"

section \<open>The token library (PyJWT)\<close>

subsection \<open>Wire text of a dictionary\<close>

text \<open>
  A token is a string. Its header and payload segments, base64url-encoded JSON in
  the library, are written here in a small self-delimiting format: a string is
  its characters, with a backslash before each backslash or semicolon, closed by
  a semicolon; a value is a tag character followed by its content; a dictionary
  is its items, each led by a comma, closed by a brace.
\<close>

fun enc_str :: "string \<Rightarrow> string" where
  "enc_str [] = '';''"
| "enc_str (c # cs) =
     (if c = CHR 0x5C \<or> c = CHR '';'' then [CHR 0x5C, c] else [c]) @ enc_str cs"

fun dec_str :: "string \<Rightarrow> (string \<times> string) option" where
  "dec_str [] = None"
| "dec_str (c # r) =
     (if c = CHR '';'' then Some ([], r)
      else if c = CHR 0x5C then
        (case r of
           [] \<Rightarrow> None
         | d # r' \<Rightarrow> (case dec_str r' of None \<Rightarrow> None | Some (s, t) \<Rightarrow> Some (d # s, t)))
      else (case dec_str r of None \<Rightarrow> None | Some (s, t) \<Rightarrow> Some (c # s, t)))"

fun enc_val :: "val \<Rightarrow> string" where
  "enc_val VNone = ''n''"
| "enc_val (VBool b) = (if b then ''t'' else ''f'')"
| "enc_val (VInt i) = CHR ''i'' # enc_str (dec_int i)"
| "enc_val (VStr s) = CHR ''s'' # enc_str s"
| "enc_val (VOid h) = CHR ''o'' # enc_str h"
| "enc_val (VDate t) = CHR ''d'' # enc_str (dec_int t)"

fun dec_val :: "string \<Rightarrow> (val \<times> string) option" where
  "dec_val [] = None"
| "dec_val (c # r) =
     (if c = CHR ''n'' then Some (VNone, r)
      else if c = CHR ''t'' then Some (VBool True, r)
      else if c = CHR ''f'' then Some (VBool False, r)
      else if c = CHR ''s'' then
        (case dec_str r of None \<Rightarrow> None | Some (s, t) \<Rightarrow> Some (VStr s, t))
      else if c = CHR ''o'' then
        (case dec_str r of None \<Rightarrow> None | Some (s, t) \<Rightarrow> Some (VOid s, t))
      else if c = CHR ''i'' then
        (case dec_str r of
           None \<Rightarrow> None
         | Some (s, t) \<Rightarrow> (case undec_int s of None \<Rightarrow> None | Some i \<Rightarrow> Some (VInt i, t)))
      else if c = CHR ''d'' then
        (case dec_str r of
           None \<Rightarrow> None
         | Some (s, t) \<Rightarrow> (case undec_int s of None \<Rightarrow> None | Some i \<Rightarrow> Some (VDate i, t)))
      else None)"

fun enc_dict :: "dict \<Rightarrow> string" where
  "enc_dict [] = ''}''"
| "enc_dict ((k, v) # ps) = CHR '','' # enc_str k @ enc_val v @ enc_dict ps"

lemma dec_str_length: "dec_str s = Some (x, t) \<Longrightarrow> length t < length s"
  by (induction s arbitrary: x t rule: dec_str.induct)
     (fastforce split: if_splits list.splits option.splits)+

lemma dec_val_length: "dec_val s = Some (v, t) \<Longrightarrow> length t < length s"
  by (cases s) (auto split: if_splits option.splits dest: dec_str_length)

function dec_dict :: "string \<Rightarrow> (dict \<times> string) option" where
  "dec_dict [] = None"
| "dec_dict (c # r) =
     (if c = CHR ''}'' then Some ([], r)
      else if c = CHR '','' then
        (case dec_str r of
           None \<Rightarrow> None
         | Some (k, r1) \<Rightarrow>
             (case dec_val r1 of
                None \<Rightarrow> None
              | Some (v, r2) \<Rightarrow>
                  (case dec_dict r2 of None \<Rightarrow> None | Some (ps, r3) \<Rightarrow> Some ((k, v) # ps, r3))))
      else None)"
  by pat_completeness auto
termination
proof (relation "measure length")
  show "wf (measure length)" by simp
next
  fix c :: char and r x2 k r1 x2a v r2
  assume "dec_str r = Some x2" "(k, r1) = x2" "dec_val r1 = Some x2a" "(v, r2) = x2a"
  then have "length r1 < length r" "length r2 < length r1"
    by (auto dest: dec_str_length dec_val_length)
  then show "(r2, c # r) \<in> measure length" by simp
qed

text \<open>Decoding inverts encoding, whatever text follows.\<close>

lemma dec_str_enc_str: "dec_str (enc_str s @ r) = Some (s, r)"
  by (induction s) auto

lemma digit_val_digit_char: "d < 10 \<Longrightarrow> digit_val (digit_char d) = Some d"
proof -
  assume "d < 10"
  then have "d \<in> {0,1,2,3,4,5,6,7,8,9}" by auto
  then show ?thesis
    by (auto simp: digit_val_def digit_char_def upt_conv_Cons)
qed

lemma digit_char_not_minus: "d < 10 \<Longrightarrow> digit_char d \<noteq> CHR ''-''"
proof -
  assume "d < 10"
  then have "d \<in> {0,1,2,3,4,5,6,7,8,9}" by auto
  then show ?thesis
    by (auto simp: digit_char_def)
qed

lemma undec_nat_append:
  "undec_nat (xs @ ys) a = (case undec_nat xs a of None \<Rightarrow> None | Some b \<Rightarrow> undec_nat ys b)"
  by (induction xs arbitrary: a) (auto split: option.splits)

lemma undec_nat_dec_nat: "undec_nat (dec_nat n) a = Some (a * 10 ^ length (dec_nat n) + n)"
proof (induction n arbitrary: a rule: dec_nat.induct)
  case (1 n)
  show ?case
  proof (cases "n < 10")
    case True
    then show ?thesis
      by (simp add: dec_nat.simps [of n] digit_val_digit_char)
  next
    case False
    have d: "digit_val (digit_char (n mod 10)) = Some (n mod 10)"
      by (rule digit_val_digit_char) simp
    from False show ?thesis
      by (simp add: dec_nat.simps [of n] undec_nat_append "1.IH" d algebra_simps)
  qed
qed

lemma dec_nat_Cons: "\<exists>c cs. dec_nat n = c # cs \<and> c \<noteq> CHR ''-''"
proof (induction n rule: dec_nat.induct)
  case (1 n)
  show ?case
  proof (cases "n < 10")
    case True
    then show ?thesis by (simp add: dec_nat.simps [of n] digit_char_not_minus)
  next
    case False
    with 1 obtain c cs where "dec_nat (n div 10) = c # cs" "c \<noteq> CHR ''-''" by blast
    with False show ?thesis by (simp add: dec_nat.simps [of n])
  qed
qed

lemma undec_int_dec_int: "undec_int (dec_int i) = Some i"
proof (cases "i < 0")
  case True
  obtain c cs where "dec_nat (nat (- i)) = c # cs" using dec_nat_Cons by blast
  with True show ?thesis
    using undec_nat_dec_nat [of "nat (- i)" 0]
    by (simp add: undec_int_def dec_int_def)
next
  case False
  obtain c cs where "dec_nat (nat i) = c # cs" "c \<noteq> CHR ''-''" using dec_nat_Cons by blast
  with False show ?thesis
    using undec_nat_dec_nat [of "nat i" 0]
    by (simp add: undec_int_def dec_int_def)
qed

lemma dec_val_enc_val: "dec_val (enc_val v @ r) = Some (v, r)"
  by (cases v) (simp_all add: dec_str_enc_str undec_int_dec_int)

lemma dec_dict_enc_dict: "dec_dict (enc_dict d @ r) = Some (d, r)"
  by (induction d) (auto simp: dec_str_enc_str dec_val_enc_val)

subsection \<open>\<^verbatim>\<open>jwt.encode\<close> and \<^verbatim>\<open>jwt.decode\<close>\<close>

text \<open>
  A token is the header, the payload and the HMAC of the two under the key.
  Encoding writes a \<^verbatim>\<open>datetime\<close> under \<^verbatim>\<open>exp\<close>, \<^verbatim>\<open>iat\<close> or \<^verbatim>\<open>nbf\<close> as its integer
  timestamp. Decoding parses the segments, checks the algorithm against the
  allowed ones, recomputes the signature over the text received, and then validates
  the expiry against the clock \<open>now\<close>; of the registered claims only \<^verbatim>\<open>exp\<close>, the
  one this program issues, is validated here. The library's exceptions are all
  subclasses of \<^verbatim>\<open>InvalidTokenError\<close>.
\<close>

datatype jwt_error =
  ExpiredSignatureError | DecodeError | InvalidSignatureError | InvalidAlgorithmError

definition jwt_header :: "string \<Rightarrow> dict" where
  "jwt_header alg = [(''typ'', VStr ''JWT''), (''alg'', VStr alg)]"

definition time_claim :: "string \<times> val \<Rightarrow> string \<times> val" where
  "time_claim kv =
     (case kv of
        (k, VDate t) \<Rightarrow> if k \<in> set [''exp'', ''iat'', ''nbf''] then (k, VInt t) else (k, VDate t)
      | (k, v) \<Rightarrow> (k, v))"

definition jwt_encode :: "env \<Rightarrow> dict \<Rightarrow> string \<Rightarrow> string \<Rightarrow> string" where
  "jwt_encode E payload key alg =
     (let signing_input = enc_dict (jwt_header alg) @ enc_dict (map time_claim payload)
      in signing_input @ hmac_sha256 E key signing_input)"

definition jwt_decode :: "env \<Rightarrow> int \<Rightarrow> string \<Rightarrow> string \<Rightarrow> string list \<Rightarrow> jwt_error + dict" where
  "jwt_decode E now token key algorithms =
     (case dec_dict token of
        None \<Rightarrow> Inl DecodeError
      | Some (header, r1) \<Rightarrow>
          (case dec_dict r1 of
             None \<Rightarrow> Inl DecodeError
           | Some (payload, signature) \<Rightarrow>
               let signing_input = take (length token - length signature) token in
               if py_get header ''alg'' \<notin> set (map VStr algorithms) then Inl InvalidAlgorithmError
               else if signature \<noteq> hmac_sha256 E key signing_input then Inl InvalidSignatureError
               else
                 (case map_of payload ''exp'' of
                    None \<Rightarrow> Inr payload
                  | Some (VInt e) \<Rightarrow> if e \<le> now then Inl ExpiredSignatureError else Inr payload
                  | Some _ \<Rightarrow> Inl DecodeError)))"

section \<open>The password library (passlib, bcrypt scheme)\<close>

text \<open>
  \<^verbatim>\<open>CryptContext(schemes=["bcrypt"])\<close>. A digest is the identifier \<^verbatim>\<open>$2b$\<close>, the cost,
  22 characters of salt and 31 of checksum; \<open>salt\<close> is the salt the library draws.
  \<^verbatim>\<open>verify\<close> answers \<^verbatim>\<open>False\<close> for the hash \<^verbatim>\<open>None\<close>, raises \<^verbatim>\<open>TypeError\<close> for a hash
  that is not a string, raises \<^verbatim>\<open>ValueError\<close> for a string that no scheme of the
  context identifies or that is not laid out as a bcrypt digest, and otherwise
  compares the digest with the one recomputed from its own configuration.
\<close>

definition bcrypt_idents :: "string list" where
  "bcrypt_idents = [''$2$'', ''$2a$'', ''$2x$'', ''$2y$'', ''$2b$'']"

definition bcrypt_identify :: "string \<Rightarrow> string option" where
  "bcrypt_identify h = List.find (\<lambda>i. take (length i) h = i) bcrypt_idents"

definition bcrypt_layout :: "string \<Rightarrow> string \<Rightarrow> bool" where
  "bcrypt_layout ident h =
     (case drop (length ident) h of
        d1 # d2 # sep # rest \<Rightarrow>
          digit_val d1 \<noteq> None \<and> digit_val d2 \<noteq> None \<and> sep = CHR ''$'' \<and> length rest = 53
      | _ \<Rightarrow> False)"

definition pwd_context_hash :: "env \<Rightarrow> string \<Rightarrow> string \<Rightarrow> string" where
  "pwd_context_hash E salt pw =
     (let config = ''$2b$12$'' @ salt in config @ bcrypt E config pw)"

definition pwd_context_verify :: "env \<Rightarrow> string \<Rightarrow> val \<Rightarrow> exn + bool" where
  "pwd_context_verify E pw hashed =
     (case hashed of
        VNone \<Rightarrow> Inr False
      | VStr h \<Rightarrow>
          (case bcrypt_identify h of
             None \<Rightarrow> Inl (ValueError ''hash could not be identified'')
           | Some ident \<Rightarrow>
               if \<not> bcrypt_layout ident h then Inl (ValueError ''malformed bcrypt hash'')
               else
                 let config = take (length h - 31) h
                 in Inr (h = config @ bcrypt E config pw))
      | _ \<Rightarrow> Inl (TypeError ''hash must be unicode or bytes''))"

section \<open>The document store\<close>

text \<open>
  A database is its collections by name, each the list of its documents; a
  collection never written is empty. A filter matches a document that holds
  each of the filter's values under its key; the value \<^verbatim>\<open>None\<close> also matches a
  document without the key. \<open>oid\<close> is the ObjectId the driver draws for a
  document inserted without \<^verbatim>\<open>_id\<close>.
\<close>

type_synonym store = "string \<Rightarrow> dict list"

definition matches :: "dict \<Rightarrow> dict \<Rightarrow> bool" where
  "matches flt d =
     list_all (\<lambda>(k, v). case map_of d k of None \<Rightarrow> v = VNone | Some w \<Rightarrow> w = v) flt"

definition find_one :: "store \<Rightarrow> string \<Rightarrow> dict \<Rightarrow> dict option" where
  "find_one db col flt = List.find (matches flt) (db col)"

definition insert_one :: "store \<Rightarrow> string \<Rightarrow> string \<Rightarrow> dict \<Rightarrow> store \<times> val" where
  "insert_one db col oid doc =
     (let doc = (if py_in ''_id'' doc then doc else py_set doc ''_id'' (VOid oid))
      in (db(col := db col @ [doc]), py_get doc ''_id''))"

definition count_documents :: "store \<Rightarrow> string \<Rightarrow> int" where
  "count_documents db col = int (length (db col))"

text \<open>
  Modelled from the spec: \<^verbatim>\<open>create_document\<close> and \<^verbatim>\<open>get_documents\<close> of the module
  \<^verbatim>\<open>database\<close>, which \<^verbatim>\<open>main.py\<close> imports and section 6 describes as
  \<^verbatim>\<open>insert(collection, doc) -> id\<close> and \<^verbatim>\<open>find(collection, filter) -> sequence of doc\<close>.
\<close>

definition create_document :: "env \<Rightarrow> store \<Rightarrow> string \<Rightarrow> string \<Rightarrow> dict \<Rightarrow> store \<times> string" where
  "create_document E db col oid doc =
     (let (db, inserted_id) = insert_one db col oid doc in (db, py_str E inserted_id))"

definition get_documents :: "store \<Rightarrow> string \<Rightarrow> dict \<Rightarrow> dict list" where
  "get_documents db col flt = filter (matches flt) (db col)"

section \<open>\<^verbatim>\<open>main.py\<close>\<close>

text \<open>
  A handler takes the database and returns it with its result: the response, or
  the exception it raised. \<open>now\<close> is the clock read by the request, in seconds.
\<close>

type_synonym 'a result = "(exn + 'a) \<times> store"

subsection \<open>Security utilities\<close>

definition JWT_SECRET :: "env \<Rightarrow> string" where
  "JWT_SECRET E = (case getenv_JWT_SECRET E of None \<Rightarrow> ''dev_secret_change_me'' | Some s \<Rightarrow> s)"

definition JWT_ALG :: string where
  "JWT_ALG = ''HS256''"

definition hash_password :: "env \<Rightarrow> string \<Rightarrow> string \<Rightarrow> string" where
  "hash_password E salt pw = pwd_context_hash E salt pw"

definition verify_password :: "env \<Rightarrow> string \<Rightarrow> val \<Rightarrow> exn + bool" where
  "verify_password E pw hashed = pwd_context_verify E pw hashed"

definition create_token :: "env \<Rightarrow> int \<Rightarrow> dict \<Rightarrow> int \<Rightarrow> string" where
  "create_token E now data expires_minutes =
     (let to_encode = data;
          expire = VDate (now + 60 * expires_minutes);
          to_encode = py_set to_encode ''exp'' expire
      in jwt_encode E to_encode (JWT_SECRET E) JWT_ALG)"

definition decode_token :: "env \<Rightarrow> int \<Rightarrow> string \<Rightarrow> exn + dict" where
  "decode_token E now token =
     (case jwt_decode E now token (JWT_SECRET E) [JWT_ALG] of
        Inr payload \<Rightarrow> Inr payload
      | Inl ExpiredSignatureError \<Rightarrow> Inl (HTTPException 401 ''Token expired'')
      | Inl _ \<Rightarrow> Inl (HTTPException 401 ''Invalid token''))"

subsection \<open>Request and response schemas\<close>

record SignupRequest =
  sr_name :: string
  sr_email :: string
  sr_password :: string
  sr_role :: string

record LoginRequest =
  lr_email :: string
  lr_password :: string

record AuthResponse =
  access_token :: string
  token_type :: string
  user :: dict

record InvestPayload =
  project_id :: string
  amount :: val

record ApplyPayload =
  job_id :: string
  resume_url :: val

text \<open>\<^verbatim>\<open>if x\<close> on the result of \<^verbatim>\<open>find_one\<close>: \<^verbatim>\<open>None\<close> and the empty dictionary are false.\<close>

fun found :: "dict option \<Rightarrow> bool" where
  "found None = False"
| "found (Some d) = (d \<noteq> [])"

text \<open>
  The two statements under \<^verbatim>\<open># sanitize\<close>, which \<^verbatim>\<open>login\<close> repeats and the listing
  handlers apply in part: \<^verbatim>\<open>d["_id"] = str(d["_id"]) if "_id" in d else None\<close> and
  \<^verbatim>\<open>d.pop("password_hash", None)\<close>.
\<close>

definition str_id :: "env \<Rightarrow> dict \<Rightarrow> dict" where
  "str_id E d =
     py_set d ''_id'' (if py_in ''_id'' d then VStr (py_str E (py_get d ''_id'')) else VNone)"

definition sanitize :: "env \<Rightarrow> dict \<Rightarrow> dict" where
  "sanitize E u = py_pop (str_id E u) ''password_hash''"

subsection \<open>Auth dependency\<close>

definition get_current_user :: "env \<Rightarrow> store \<Rightarrow> int \<Rightarrow> string option \<Rightarrow> dict result" where
  "get_current_user E db now authorization =
     (case authorization of
        None \<Rightarrow> (Inl (HTTPException 401 ''Missing Authorization header''), db)
      | Some a \<Rightarrow>
          if a = [] then (Inl (HTTPException 401 ''Missing Authorization header''), db)
          else
            let (scheme, token) = partition_space a in
            if py_lower scheme \<noteq> ''bearer'' \<or> token = []
            then (Inl (HTTPException 401 ''Invalid auth header''), db)
            else
              (case decode_token E now token of
                 Inl e \<Rightarrow> (Inl e, db)
               | Inr payload \<Rightarrow>
                   (case find_one db ''user'' [(''email'', py_get payload ''sub'')] of
                      None \<Rightarrow> (Inl (HTTPException 401 ''User not found''), db)
                    | Some u \<Rightarrow>
                        if u = [] then (Inl (HTTPException 401 ''User not found''), db)
                        else (Inr (sanitize E u), db))))"

text \<open>\<^verbatim>\<open>user: dict = Depends(get_current_user)\<close>: the handler runs on what the dependency returns.\<close>

definition Depends :: "dict result \<Rightarrow> (store \<Rightarrow> dict \<Rightarrow> 'a result) \<Rightarrow> 'a result" where
  "Depends dep handler =
     (case dep of (Inl e, db) \<Rightarrow> (Inl e, db) | (Inr u, db) \<Rightarrow> handler db u)"

subsection \<open>Authentication\<close>

definition signup :: "env \<Rightarrow> store \<Rightarrow> int \<Rightarrow> string \<Rightarrow> string \<Rightarrow> SignupRequest \<Rightarrow> AuthResponse result" where
  "signup E db now salt oid payload =
     (let email = py_lower (sr_email payload);
          existing = find_one db ''user'' [(''email'', VStr email)]
      in if found existing then (Inl (HTTPException 400 ''Email already registered''), db)
         else
           let user_doc =
                 [(''name'', VStr (sr_name payload)),
                  (''email'', VStr email),
                  (''phone'', VNone),
                  (''role'', VStr (sr_role payload)),
                  (''password_hash'', VStr (hash_password E salt (sr_password payload))),
                  (''kyc_status'', VStr ''pending''),
                  (''company_id'', VNone),
                  (''is_active'', VBool True),
                  (''created_at'', VDate now),
                  (''updated_at'', VDate now)];
               (db, inserted_id) = insert_one db ''user'' oid user_doc;
               sub = email;
               token = create_token E now [(''sub'', VStr sub), (''role'', VStr (sr_role payload))] 60;
               user_doc = py_set user_doc ''_id'' (VStr (py_str E inserted_id));
               user_doc = py_pop user_doc ''password_hash''
           in (Inr \<lparr>access_token = token, token_type = ''bearer'', user = user_doc\<rparr>, db))"

definition login :: "env \<Rightarrow> store \<Rightarrow> int \<Rightarrow> LoginRequest \<Rightarrow> AuthResponse result" where
  "login E db now payload =
     (let email = py_lower (lr_email payload);
          found_user = find_one db ''user'' [(''email'', VStr email)]
      in case found_user of
           None \<Rightarrow> (Inl (HTTPException 401 ''Invalid credentials''), db)
         | Some u \<Rightarrow>
             if u = [] then (Inl (HTTPException 401 ''Invalid credentials''), db)
             else
               (case verify_password E (lr_password payload)
                       (py_get_default u ''password_hash'' (VStr [])) of
                  Inl e \<Rightarrow> (Inl e, db)
                | Inr ok \<Rightarrow>
                    if \<not> ok then (Inl (HTTPException 401 ''Invalid credentials''), db)
                    else if \<not> truthy (py_get_default u ''is_active'' (VBool True))
                    then (Inl (HTTPException 403 ''User deactivated''), db)
                    else
                      let token = create_token E now [(''sub'', VStr email), (''role'', py_get u ''role'')] 60;
                          u = sanitize E u
                      in (Inr \<lparr>access_token = token, token_type = ''bearer'', user = u\<rparr>, db)))"

definition me :: "store \<Rightarrow> dict \<Rightarrow> dict result" where
  "me db u = (Inr u, db)"

subsection \<open>Vendor endpoints\<close>

text \<open>
  A handler with a request body takes \<open>payload\<close>, the validated body, as the
  dictionary \<^verbatim>\<open>payload.dict()\<close> returns.
\<close>

definition create_product :: "env \<Rightarrow> string \<Rightarrow> dict \<Rightarrow> store \<Rightarrow> dict \<Rightarrow> dict result" where
  "create_product E oid payload db u =
     (if py_get u ''role'' \<noteq> VStr ''vendor''
      then (Inl (HTTPException 403 ''Only vendors can create products''), db)
      else
        let doc = payload;
            doc = py_set doc ''vendor_id'' (py_get u ''_id'');
            (db, inserted_id) = create_document E db ''productlisting'' oid doc
        in (Inr [(''id'', VStr inserted_id), (''message'', VStr ''Product listed'')], db))"

definition my_products :: "env \<Rightarrow> store \<Rightarrow> dict \<Rightarrow> (dict list) result" where
  "my_products E db u =
     (if py_get u ''role'' \<noteq> VStr ''vendor''
      then (Inl (HTTPException 403 ''Only vendors can view this''), db)
      else
        let docs = get_documents db ''productlisting'' [(''vendor_id'', py_get u ''_id'')]
        in (Inr (map (str_id E) docs), db))"

subsection \<open>Buyer endpoints\<close>

definition create_requirement :: "env \<Rightarrow> string \<Rightarrow> dict \<Rightarrow> store \<Rightarrow> dict \<Rightarrow> dict result" where
  "create_requirement E oid payload db u =
     (if py_get u ''role'' \<noteq> VStr ''buyer''
      then (Inl (HTTPException 403 ''Only buyers can post requirements''), db)
      else
        let doc = payload;
            doc = py_set doc ''buyer_id'' (py_get u ''_id'');
            doc = py_set doc ''status'' (VStr ''submitted'');
            (db, inserted_id) = create_document E db ''buyerrequirement'' oid doc
        in (Inr [(''id'', VStr inserted_id), (''message'', VStr ''Requirement posted'')], db))"

definition my_requirements :: "env \<Rightarrow> store \<Rightarrow> dict \<Rightarrow> (dict list) result" where
  "my_requirements E db u =
     (if py_get u ''role'' \<noteq> VStr ''buyer''
      then (Inl (HTTPException 403 ''Only buyers can view this''), db)
      else
        let docs = get_documents db ''buyerrequirement'' [(''buyer_id'', py_get u ''_id'')]
        in (Inr (map (str_id E) docs), db))"

subsection \<open>Investor endpoints\<close>

definition create_project :: "env \<Rightarrow> string \<Rightarrow> dict \<Rightarrow> store \<Rightarrow> dict \<Rightarrow> dict result" where
  "create_project E oid payload db u =
     (if py_get u ''role'' \<notin> set [VStr ''vendor'', VStr ''admin'']
      then (Inl (HTTPException 403 ''Only vendors or admins can create projects''), db)
      else
        let doc = payload;
            doc = py_set doc ''owner_vendor_id'' (py_get u ''_id'');
            (db, inserted_id) = create_document E db ''investmentproject'' oid doc
        in (Inr [(''id'', VStr inserted_id), (''message'', VStr ''Project created'')], db))"

definition list_projects :: "env \<Rightarrow> store \<Rightarrow> (dict list) result" where
  "list_projects E db =
     (let docs = get_documents db ''investmentproject'' [] in (Inr (map (str_id E) docs), db))"

definition invest :: "env \<Rightarrow> string \<Rightarrow> InvestPayload \<Rightarrow> store \<Rightarrow> dict \<Rightarrow> dict result" where
  "invest E oid payload db u =
     (if py_get u ''role'' \<noteq> VStr ''investor''
      then (Inl (HTTPException 403 ''Only investors can invest''), db)
      else
        let doc = [(''investor_id'', py_get u ''_id''),
                   (''project_id'', VStr (project_id payload)),
                   (''amount'', amount payload),
                   (''status'', VStr ''initiated'')];
            (db, inserted_id) = create_document E db ''transaction'' oid doc
        in (Inr [(''id'', VStr inserted_id), (''message'', VStr ''Investment initiated'')], db))"

subsection \<open>Jobs endpoints\<close>

definition create_job :: "env \<Rightarrow> string \<Rightarrow> dict \<Rightarrow> store \<Rightarrow> dict \<Rightarrow> dict result" where
  "create_job E oid payload db u =
     (if py_get u ''role'' \<notin> set [VStr ''vendor'', VStr ''admin'']
      then (Inl (HTTPException 403 ''Only vendors/admins can post jobs''), db)
      else
        let doc = payload;
            (db, inserted_id) = create_document E db ''joblisting'' oid doc
        in (Inr [(''id'', VStr inserted_id), (''message'', VStr ''Job posted'')], db))"

definition list_jobs :: "env \<Rightarrow> store \<Rightarrow> (dict list) result" where
  "list_jobs E db =
     (let docs = get_documents db ''joblisting'' [] in (Inr (map (str_id E) docs), db))"

definition apply_job :: "env \<Rightarrow> string \<Rightarrow> ApplyPayload \<Rightarrow> store \<Rightarrow> dict \<Rightarrow> dict result" where
  "apply_job E oid payload db u =
     (if py_get u ''role'' \<notin> set [VStr ''employee'', VStr ''admin'']
      then (Inl (HTTPException 403 ''Only employees/admins can apply''), db)
      else
        let doc = [(''job_id'', VStr (job_id payload)),
                   (''user_id'', py_get u ''_id''),
                   (''status'', VStr ''applied''),
                   (''resume_url'', resume_url payload)];
            (db, inserted_id) = create_document E db ''jobapplication'' oid doc
        in (Inr [(''id'', VStr inserted_id), (''message'', VStr ''Application submitted'')], db))"

subsection \<open>Admin\<close>

definition admin_overview :: "store \<Rightarrow> dict \<Rightarrow> dict result" where
  "admin_overview db u =
     (if py_get u ''role'' \<noteq> VStr ''admin''
      then (Inl (HTTPException 403 ''Admin only''), db)
      else
        let count = (\<lambda>col. VInt (count_documents db col))
        in (Inr [(''users'', count ''user''),
                 (''products'', count ''productlisting''),
                 (''requirements'', count ''buyerrequirement''),
                 (''projects'', count ''investmentproject''),
                 (''transactions'', count ''transaction''),
                 (''jobs'', count ''joblisting''),
                 (''applications'', count ''jobapplication'')], db))"

subsection \<open>Reading a result\<close>

definition status :: "'a result \<Rightarrow> nat" where
  "status r = (case fst r of Inl e \<Rightarrow> status_code e | Inr x \<Rightarrow> 200)"

subsection \<open>An invariant of the user collection\<close>


section \<open>An example environment\<close>

text \<open>
  A concrete environment, on which the properties below are exercised: no
  \<^verbatim>\<open>JWT_SECRET\<close> is set, and the primitives are simple stand-ins (the checksum has
  the 31 characters of a bcrypt checksum).
\<close>

definition example_env :: env where
  "example_env =
     \<lparr>getenv_JWT_SECRET = None,
      hmac_sha256 = (\<lambda>key msg. rev key),
      bcrypt = (\<lambda>config pw. take 31 (rev pw @ replicate 31 (CHR ''.''))),
      str_datetime = dec_int\<rparr>"

definition empty_db :: store where
  "empty_db = (\<lambda>col. [])"

text \<open>A database holding one vendor, as \<^verbatim>\<open>signup\<close> stores users, and a token issued at time 1000.\<close>

definition example_user :: dict where
  "example_user =
     [(''_id'', VOid ''65f0a1b2c3d4e5f601234567''),
      (''name'', VStr ''Vera''),
      (''email'', VStr ''v@x.com''),
      (''phone'', VNone),
      (''role'', VStr ''vendor''),
      (''password_hash'', VStr (hash_password example_env ''abcdefghijklmnopqrstuv'' ''pw123'')),
      (''kyc_status'', VStr ''pending''),
      (''company_id'', VNone),
      (''is_active'', VBool True),
      (''created_at'', VDate 900),
      (''updated_at'', VDate 900)]"

definition example_db :: store where
  "example_db = empty_db(''user'' := [example_user])"

definition example_token :: "string \<Rightarrow> string \<Rightarrow> string" where
  "example_token subject role =
     create_token example_env 1000 [(''sub'', VStr subject), (''role'', VStr role)] 60"

definition example_payload :: dict where
  "example_payload = [(''title'', VStr ''Widget'')]"

text \<open>The same vendor, deactivated.\<close>

definition inactive_user :: dict where
  "inactive_user = py_set example_user ''is_active'' (VBool False)"

definition inactive_db :: store where
  "inactive_db = empty_db(''user'' := [inactive_user])"

text \<open>The same vendor, in a record without \<^verbatim>\<open>is_active\<close>, and in one without \<^verbatim>\<open>password_hash\<close>.\<close>

definition unflagged_user :: dict where
  "unflagged_user = py_pop example_user ''is_active''"

definition unflagged_db :: store where
  "unflagged_db = empty_db(''user'' := [unflagged_user])"

definition unhashed_user :: dict where
  "unhashed_user = py_pop example_user ''password_hash''"

definition unhashed_db :: store where
  "unhashed_db = empty_db(''user'' := [unhashed_user])"

section \<open>Properties of the token codec\<close>

lemma fst_time_claim: "fst (time_claim kv) = fst kv"
  by (cases kv; cases "snd kv") (auto simp: time_claim_def)

lemma map_of_time_claim:
  "map_of (map time_claim d) k = map_option (\<lambda>v. snd (time_claim (k, v))) (map_of d k)"
proof (induction d)
  case Nil
  then show ?case by simp
next
  case (Cons kv d)
  obtain k' v where kv: "kv = (k', v)" by (cases kv)
  have "fst (time_claim (k', v)) = k'" using fst_time_claim [of "(k', v)"] by simp
  then obtain w where w: "time_claim (k', v) = (k', w)" by (cases "time_claim (k', v)") auto
  show ?case using Cons w by (auto simp: kv)
qed

text \<open>Decoding what was just encoded under the same key: only the algorithm and the expiry decide.\<close>

lemma jwt_decode_encode:
  "jwt_decode E now (jwt_encode E payload key alg) key algorithms =
     (if alg \<notin> set algorithms then Inl InvalidAlgorithmError
      else case map_of (map time_claim payload) ''exp'' of
             None \<Rightarrow> Inr (map time_claim payload)
           | Some (VInt e) \<Rightarrow> if e \<le> now then Inl ExpiredSignatureError else Inr (map time_claim payload)
           | Some _ \<Rightarrow> Inl DecodeError)"
proof -
  let ?h = "enc_dict (jwt_header alg)" and ?p = "enc_dict (map time_claim payload)"
  let ?s = "hmac_sha256 E key (?h @ ?p)"
  have 1: "dec_dict (?h @ ?p @ ?s) = Some (jwt_header alg, ?p @ ?s)"
    by (rule dec_dict_enc_dict)
  have 2: "dec_dict (?p @ ?s) = Some (map time_claim payload, ?s)"
    by (rule dec_dict_enc_dict)
  have 3: "py_get (jwt_header alg) ''alg'' = VStr alg"
    by (simp add: py_get_def py_get_default_def jwt_header_def)
  have 4: "(VStr alg \<in> VStr ` set algorithms) = (alg \<in> set algorithms)"
    by auto
  show ?thesis
    unfolding jwt_decode_def jwt_encode_def Let_def
    by (simp only: append_assoc 1 2 option.case prod.case) (simp add: 3 4)
qed

lemma decode_token_create_token:
  "decode_token E now' (create_token E now data m) =
     (if now + 60 * m \<le> now' then Inl (HTTPException 401 ''Token expired'')
      else Inr (map time_claim (py_set data ''exp'' (VDate (now + 60 * m)))))"
proof -
  have "map_of (map time_claim (py_set data ''exp'' (VDate (now + 60 * m)))) ''exp''
          = Some (VInt (now + 60 * m))"
    by (simp add: map_of_time_claim py_set_def update_conv' time_claim_def)
  then show ?thesis
    by (simp add: decode_token_def create_token_def jwt_decode_encode JWT_ALG_def)
qed

lemma issued_claims:
  "map time_claim (py_set [(''sub'', VStr s), (''role'', r)] ''exp'' (VDate t)) =
     [(''sub'', VStr s), time_claim (''role'', r), (''exp'', VInt t)]"
  by (simp add: py_set_def time_claim_def)

lemma time_claim_role: "time_claim (''role'', r) = (''role'', r)"
  by (cases r) (simp_all add: time_claim_def)

text \<open>
  C5, as the claim states it, fails: the claims decoded from a fresh token are
  not the subject and the role alone. \<^verbatim>\<open>create_token\<close> adds the expiry to the
  payload it signs, and \<^verbatim>\<open>decode_token\<close> returns the whole payload.
\<close>

theorem token_round_trip_exact_counterexample:
  "decode_token example_env 1000
     (create_token example_env 1000 [(''sub'', VStr ''v@x.com''), (''role'', VStr ''vendor'')] 60)
   \<noteq> Inr [(''sub'', VStr ''v@x.com''), (''role'', VStr ''vendor'')]"
  by (simp add: decode_token_create_token issued_claims time_claim_role)

text \<open>
  C5, amended: decoding a token before it expires returns the subject and the
  role it was issued for, unchanged, together with the expiry, the time of issue
  plus sixty minutes in seconds, and nothing else. This holds for every subject
  and every role string.
\<close>

theorem token_round_trip:
  "now' < now + 3600 \<Longrightarrow>
   decode_token E now' (create_token E now [(''sub'', VStr subject), (''role'', VStr role)] 60)
     = Inr [(''sub'', VStr subject), (''role'', VStr role), (''exp'', VInt (now + 3600))]"
  by (simp add: decode_token_create_token issued_claims time_claim_role)

theorem token_round_trip_witness:
  "(1000 :: int) < 1000 + 3600 \<and>
   decode_token example_env 1000
     (create_token example_env 1000 [(''sub'', VStr ''v@x.com''), (''role'', VStr ''vendor'')] 60)
     = Inr [(''sub'', VStr ''v@x.com''), (''role'', VStr ''vendor''), (''exp'', VInt 4600)]"
  using token_round_trip [of 1000 1000 example_env "''v@x.com''" "''vendor''"] by simp









section \<open>Properties of the session resolver\<close>

lemma py_lower_Bearer: "py_lower ''Bearer'' = ''bearer''"
  by code_simp

lemma partition_space_Bearer: "partition_space (''Bearer '' @ tok) = (''Bearer'', tok)"
  by (simp add: partition_space_def)

lemma decode_token_Nil: "decode_token E now [] = Inl (HTTPException 401 ''Invalid token'')"
  by (simp add: decode_token_def jwt_decode_def)


lemma get_current_user_db: "snd (get_current_user E db now hdr) = db"
  by (auto simp: get_current_user_def Let_def split: option.splits if_splits prod.splits sum.splits)




lemma find_one_example_user:
  "find_one example_db ''user'' [(''email'', VStr ''v@x.com'')] = Some example_user"
  by (simp add: find_one_def example_db_def empty_db_def matches_def example_user_def)


lemma example_user_not_empty: "example_user \<noteq> []"
  by (simp add: example_user_def)

lemma decode_example_token:
  "decode_token example_env 1000 (example_token s r) =
     Inr [(''sub'', VStr s), (''role'', VStr r), (''exp'', VInt 4600)]"
  by (simp add: example_token_def decode_token_create_token issued_claims time_claim_role)


section \<open>Properties of the access policy\<close>

lemma status_create_document [simp]:
  "status (case create_document E db col oid doc of (db', i) \<Rightarrow> (Inr (f i), db')) = 200"
  by (simp add: status_def split: prod.splits)

lemma example_vendor_role: "py_get (sanitize example_env example_user) ''role'' = VStr ''vendor''"
  by (simp add: sanitize_def str_id_def py_set_def py_pop_def py_get_def py_get_default_def
      py_in_def example_user_def)

lemma enc_dict_not_Nil: "enc_dict d \<noteq> []"
  by (cases d) auto

lemma create_token_not_Nil: "create_token E now data m \<noteq> []"
  by (simp add: create_token_def jwt_encode_def Let_def enc_dict_not_Nil)

lemma example_token_not_Nil: "example_token s r \<noteq> []"
  by (simp add: example_token_def create_token_not_Nil)

lemma get_current_user_example:
  "get_current_user example_env example_db 1000 (Some (''Bearer '' @ example_token ''v@x.com'' ''vendor''))
     = (Inr (sanitize example_env example_user), example_db)"
  by (simp add: get_current_user_def partition_space_def py_lower_Bearer decode_example_token
      find_one_example_user example_user_not_empty py_get_def py_get_default_def
      example_token_not_Nil)

text \<open>
  C1: for a request the session resolver authenticates as the user \<open>u\<close>, each
  protected endpoint answers 200 when the role of \<open>u\<close> is in the endpoint's
  allowed set and 403 otherwise, whatever the body, the database and the owner
  of any resource: products and own products for vendor; requirements and own
  requirements for buyer; creating a project for vendor or admin; investing for
  investor; creating a job for vendor or admin; applying for employee or admin;
  the overview for admin. Listing projects and listing jobs take no credential
  and succeed for every caller.
\<close>

theorem rbac_matrix:
  "(get_current_user E db now hdr = (Inr u, db) \<longrightarrow>
     status (Depends (get_current_user E db now hdr) (create_product E oid payload))
       = (if py_get u ''role'' = VStr ''vendor'' then 200 else 403)
   \<and> status (Depends (get_current_user E db now hdr) (my_products E))
       = (if py_get u ''role'' = VStr ''vendor'' then 200 else 403)
   \<and> status (Depends (get_current_user E db now hdr) (create_requirement E oid payload))
       = (if py_get u ''role'' = VStr ''buyer'' then 200 else 403)
   \<and> status (Depends (get_current_user E db now hdr) (my_requirements E))
       = (if py_get u ''role'' = VStr ''buyer'' then 200 else 403)
   \<and> status (Depends (get_current_user E db now hdr) (create_project E oid payload))
       = (if py_get u ''role'' = VStr ''vendor'' \<or> py_get u ''role'' = VStr ''admin'' then 200 else 403)
   \<and> status (Depends (get_current_user E db now hdr) (invest E oid investment))
       = (if py_get u ''role'' = VStr ''investor'' then 200 else 403)
   \<and> status (Depends (get_current_user E db now hdr) (create_job E oid payload))
       = (if py_get u ''role'' = VStr ''vendor'' \<or> py_get u ''role'' = VStr ''admin'' then 200 else 403)
   \<and> status (Depends (get_current_user E db now hdr) (apply_job E oid application))
       = (if py_get u ''role'' = VStr ''employee'' \<or> py_get u ''role'' = VStr ''admin'' then 200 else 403)
   \<and> status (Depends (get_current_user E db now hdr) admin_overview)
       = (if py_get u ''role'' = VStr ''admin'' then 200 else 403))
   \<and> status (list_projects E db) = 200
   \<and> status (list_jobs E db) = 200"
  by (simp add: Depends_def create_product_def my_products_def create_requirement_def
      my_requirements_def create_project_def invest_def create_job_def apply_job_def
      admin_overview_def list_projects_def list_jobs_def Let_def)
     (simp add: status_def)

theorem rbac_matrix_witness:
  "status (Depends (get_current_user example_env example_db 1000
              (Some (''Bearer '' @ example_token ''v@x.com'' ''vendor'')))
            (create_product example_env ''65f0a1b2c3d4e5f601234568'' example_payload)) = 200
   \<and> status (Depends (get_current_user example_env example_db 1000
              (Some (''Bearer '' @ example_token ''v@x.com'' ''vendor'')))
            (create_requirement example_env ''65f0a1b2c3d4e5f601234568'' example_payload)) = 403
   \<and> status (Depends (get_current_user example_env example_db 1000
              (Some (''Bearer '' @ example_token ''v@x.com'' ''vendor'')))
            (create_job example_env ''65f0a1b2c3d4e5f601234568'' example_payload)) = 200
   \<and> status (Depends (get_current_user example_env example_db 1000
              (Some (''Bearer '' @ example_token ''v@x.com'' ''vendor'')))
            admin_overview) = 403"
  using rbac_matrix [where E = example_env and db = example_db and now = 1000
      and hdr = "Some (''Bearer '' @ example_token ''v@x.com'' ''vendor'')"
      and u = "sanitize example_env example_user"
      and oid = "''65f0a1b2c3d4e5f601234568''" and payload = example_payload]
    get_current_user_example
  by (simp add: example_vendor_role)

section \<open>Properties of sanitization\<close>

lemma find_Some_in: "List.find P xs = Some x \<Longrightarrow> x \<in> set xs \<and> P x"
  by (induction xs) (auto split: if_splits)

lemma find_one_in: "find_one db col flt = Some u \<Longrightarrow> u \<in> set (db col) \<and> matches flt u"
  unfolding find_one_def by (rule find_Some_in)

lemma map_of_sanitize_password_hash: "map_of (sanitize E u) ''password_hash'' = None"
  by (simp add: sanitize_def py_pop_def delete_conv')

lemma map_of_sanitize_id:
  "map_of (sanitize E u) ''_id'' =
     Some (if py_in ''_id'' u then VStr (py_str E (py_get u ''_id'')) else VNone)"
  by (simp add: sanitize_def str_id_def py_pop_def py_set_def delete_conv' update_conv')

lemma map_of_sanitize_other:
  "k \<noteq> ''password_hash'' \<Longrightarrow> k \<noteq> ''_id'' \<Longrightarrow> map_of (sanitize E u) k = map_of u k"
  by (simp add: sanitize_def str_id_def py_pop_def py_set_def delete_conv' update_conv')

lemma py_get_sanitize:
  "k \<noteq> ''password_hash'' \<Longrightarrow> k \<noteq> ''_id'' \<Longrightarrow> py_get (sanitize E u) k = py_get u k"
  by (simp add: py_get_def py_get_default_def map_of_sanitize_other)

lemma get_current_user_Inr:
  "get_current_user E db now hdr = (Inr su, db') \<Longrightarrow>
   db' = db \<and> (\<exists>u \<in> set (db ''user''). su = sanitize E u)"
  by (auto simp: get_current_user_def Let_def
      split: option.splits if_splits prod.splits sum.splits dest: find_one_in)


lemma login_Inr:
  "login E db now req = (Inr resp, db') \<Longrightarrow>
   db' = db \<and> (\<exists>u \<in> set (db ''user''). user resp = sanitize E u)"
  by (auto simp: login_def Let_def split: option.splits if_splits sum.splits dest: find_one_in)

lemma signup_unfold:
  "signup E db now salt oid req =
     (if found (find_one db ''user'' [(''email'', VStr (py_lower (sr_email req)))])
      then (Inl (HTTPException 400 ''Email already registered''), db)
      else
        (Inr \<lparr>access_token =
                create_token E now
                  [(''sub'', VStr (py_lower (sr_email req))), (''role'', VStr (sr_role req))] 60,
              token_type = ''bearer'',
              user =
                [(''name'', VStr (sr_name req)),
                 (''email'', VStr (py_lower (sr_email req))),
                 (''phone'', VNone),
                 (''role'', VStr (sr_role req)),
                 (''kyc_status'', VStr ''pending''),
                 (''company_id'', VNone),
                 (''is_active'', VBool True),
                 (''created_at'', VDate now),
                 (''updated_at'', VDate now),
                 (''_id'', VStr oid)]\<rparr>,
         db(''user'' := db ''user'' @
              [[(''name'', VStr (sr_name req)),
                (''email'', VStr (py_lower (sr_email req))),
                (''phone'', VNone),
                (''role'', VStr (sr_role req)),
                (''password_hash'', VStr (hash_password E salt (sr_password req))),
                (''kyc_status'', VStr ''pending''),
                (''company_id'', VNone),
                (''is_active'', VBool True),
                (''created_at'', VDate now),
                (''updated_at'', VDate now),
                (''_id'', VOid oid)]])))"
  by (simp add: signup_def Let_def insert_one_def py_in_def py_set_def py_pop_def py_get_def
      py_get_default_def)

lemma signup_Inr:
  assumes "signup E db now salt oid req = (Inr resp, db')"
  shows "\<exists>doc. db' = db(''user'' := db ''user'' @ [doc]) \<and> user resp = sanitize E doc
     \<and> map_of doc ''password_hash'' = Some (VStr (hash_password E salt (sr_password req)))
     \<and> map_of doc ''_id'' = Some (VOid oid)"
proof -
  let ?doc = "[(''name'', VStr (sr_name req)),
                (''email'', VStr (py_lower (sr_email req))),
                (''phone'', VNone),
                (''role'', VStr (sr_role req)),
                (''password_hash'', VStr (hash_password E salt (sr_password req))),
                (''kyc_status'', VStr ''pending''),
                (''company_id'', VNone),
                (''is_active'', VBool True),
                (''created_at'', VDate now),
                (''updated_at'', VDate now),
                (''_id'', VOid oid)]"
  have s: "user resp = sanitize E ?doc \<and> db' = db(''user'' := db ''user'' @ [?doc])"
    using assms unfolding signup_unfold
    by (auto simp: sanitize_def str_id_def py_in_def py_set_def py_pop_def py_get_def
        py_get_default_def split: if_splits)
  show ?thesis
    by (rule exI [of _ ?doc]) (simp add: s)
qed

text \<open>
  C8: the user that the session resolver, \<^verbatim>\<open>login\<close> and \<^verbatim>\<open>signup\<close> return is the
  sanitized view of a document of the store: it has no \<^verbatim>\<open>password_hash\<close>, its
  \<^verbatim>\<open>_id\<close> is the text of the stored \<^verbatim>\<open>_id\<close>, and every other field is the stored
  one. The resolver and \<^verbatim>\<open>login\<close> leave the store as it was; \<^verbatim>\<open>signup\<close> only
  appends the new document, which keeps its password hash and its ObjectId.
\<close>

theorem sanitized_views:
  "(get_current_user E db now hdr = (Inr su, db') \<longrightarrow>
      db' = db \<and> (\<exists>u \<in> set (db ''user''). su = sanitize E u))
   \<and> (login E db now req = (Inr resp, db') \<longrightarrow>
      db' = db \<and> (\<exists>u \<in> set (db ''user''). user resp = sanitize E u))
   \<and> (signup E db now salt oid sreq = (Inr resp, db') \<longrightarrow>
      (\<exists>doc. db' = db(''user'' := db ''user'' @ [doc]) \<and> user resp = sanitize E doc
         \<and> map_of doc ''password_hash'' = Some (VStr (hash_password E salt (sr_password sreq)))
         \<and> map_of doc ''_id'' = Some (VOid oid)))
   \<and> map_of (sanitize E u) ''password_hash'' = None
   \<and> (py_in ''_id'' u \<longrightarrow> map_of (sanitize E u) ''_id'' = Some (VStr (py_str E (py_get u ''_id''))))
   \<and> (k \<noteq> ''password_hash'' \<and> k \<noteq> ''_id'' \<longrightarrow> map_of (sanitize E u) k = map_of u k)"
  using get_current_user_Inr [of E db now hdr su db'] login_Inr [of E db now req resp db']
    signup_Inr [of E db now salt oid sreq resp db']
  by (simp add: map_of_sanitize_password_hash map_of_sanitize_id map_of_sanitize_other)

section \<open>Properties of the credential hasher\<close>

lemma bcrypt_identify_2b: "bcrypt_identify (''$2b$12$'' @ rest) = Some ''$2b$''"
  by (simp add: bcrypt_identify_def bcrypt_idents_def)

lemma verify_password_hash:
  assumes "length salt = 22" and "length (bcrypt E (''$2b$12$'' @ salt) pw) = 31"
  shows "verify_password E pw' (VStr (hash_password E salt pw)) =
           Inr (bcrypt E (''$2b$12$'' @ salt) pw = bcrypt E (''$2b$12$'' @ salt) pw')"
proof -
  let ?chk = "bcrypt E (''$2b$12$'' @ salt) pw"
  have l: "bcrypt_layout ''$2b$'' (''$2b$12$'' @ salt @ ?chk)"
    using assms by (simp add: bcrypt_layout_def digit_val_def)
  have t: "take (length (''$2b$12$'' @ salt @ ?chk) - 31) (''$2b$12$'' @ salt @ ?chk) = ''$2b$12$'' @ salt"
    using assms by simp
  show ?thesis
    unfolding verify_password_def hash_password_def pwd_context_verify_def pwd_context_hash_def Let_def
    using l t by (simp add: bcrypt_identify_2b del: append.simps length_append)
qed

lemma verify_hash_password:
  assumes "length salt = 22" and "length (bcrypt E (''$2b$12$'' @ salt) pw) = 31"
  shows "verify_password E pw (VStr (hash_password E salt pw)) = Inr True"
  using verify_password_hash [OF assms, of pw] by simp


lemma verify_password_empty: "verify_password E pw (VStr []) = Inl (ValueError ''hash could not be identified'')"
  by (simp add: verify_password_def pwd_context_verify_def bcrypt_identify_def bcrypt_idents_def)

lemma verify_password_None: "verify_password E pw VNone = Inr False"
  by (simp add: verify_password_def pwd_context_verify_def)

section \<open>Properties of login\<close>

lemma matches_VStr_not_empty: "matches [(k, VStr s)] d \<Longrightarrow> d \<noteq> []"
  by (auto simp: matches_def)


lemma find_one_VStr_not_empty: "find_one db col [(k, VStr s)] = Some u \<Longrightarrow> u \<noteq> []"
  by (auto dest!: find_one_in matches_VStr_not_empty)

lemma login_unfold:
  "login E db now req =
     (case find_one db ''user'' [(''email'', VStr (py_lower (lr_email req)))] of
        None \<Rightarrow> (Inl (HTTPException 401 ''Invalid credentials''), db)
      | Some u \<Rightarrow>
          (case verify_password E (lr_password req) (py_get_default u ''password_hash'' (VStr [])) of
             Inl e \<Rightarrow> (Inl e, db)
           | Inr ok \<Rightarrow>
               if \<not> ok then (Inl (HTTPException 401 ''Invalid credentials''), db)
               else if \<not> truthy (py_get_default u ''is_active'' (VBool True))
               then (Inl (HTTPException 403 ''User deactivated''), db)
               else (Inr \<lparr>access_token =
                             create_token E now
                               [(''sub'', VStr (py_lower (lr_email req))), (''role'', py_get u ''role'')] 60,
                           token_type = ''bearer'', user = sanitize E u\<rparr>, db)))"
  by (auto simp: login_def Let_def split: option.splits sum.splits dest: find_one_VStr_not_empty)



lemma py_lower_example_email': "py_lower ''v@x.com'' = ''v@x.com''"
  by code_simp



lemma example_bcrypt_length: "length (bcrypt example_env config pw) = 31"
  by (simp add: example_env_def)

lemma verify_example_right:
  "verify_password example_env ''pw123''
     (VStr (hash_password example_env ''abcdefghijklmnopqrstuv'' ''pw123'')) = Inr True"
  by (rule verify_hash_password) (simp_all add: example_bcrypt_length)



lemma find_one_inactive_user:
  "find_one inactive_db ''user'' [(''email'', VStr ''v@x.com'')] = Some inactive_user"
  by (simp add: find_one_def inactive_db_def empty_db_def matches_def inactive_user_def
      example_user_def py_set_def)

lemma inactive_password_hash:
  "py_get_default inactive_user ''password_hash'' (VStr []) =
     VStr (hash_password example_env ''abcdefghijklmnopqrstuv'' ''pw123'')"
  by (simp add: py_get_default_def inactive_user_def example_user_def py_set_def)

lemma inactive_is_active: "py_get_default inactive_user ''is_active'' (VBool True) = VBool False"
  by (simp add: py_get_default_def inactive_user_def example_user_def py_set_def)



lemma signup_empty_db:
  "find_one empty_db ''user'' flt = None"
  by (simp add: find_one_def empty_db_def)

theorem sanitized_views_witness:
  "(\<exists>u \<in> set (example_db ''user''). sanitize example_env example_user = sanitize example_env u)
   \<and> (\<exists>doc.
         snd (signup example_env empty_db 1000 ''abcdefghijklmnopqrstuv'' ''65f0a1b2c3d4e5f601234567''
                \<lparr>sr_name = ''Vera'', sr_email = ''V@X.com'', sr_password = ''pw123'', sr_role = ''vendor''\<rparr>)
           = empty_db(''user'' := empty_db ''user'' @ [doc])
         \<and> user (projr (fst
               (signup example_env empty_db 1000 ''abcdefghijklmnopqrstuv'' ''65f0a1b2c3d4e5f601234567''
                  \<lparr>sr_name = ''Vera'', sr_email = ''V@X.com'', sr_password = ''pw123'', sr_role = ''vendor''\<rparr>)))
           = sanitize example_env doc
         \<and> map_of doc ''password_hash''
             = Some (VStr (hash_password example_env ''abcdefghijklmnopqrstuv'' ''pw123''))
         \<and> map_of doc ''_id'' = Some (VOid ''65f0a1b2c3d4e5f601234567''))
   \<and> map_of (sanitize example_env example_user) ''password_hash'' = None
   \<and> map_of (sanitize example_env example_user) ''_id'' = Some (VStr ''65f0a1b2c3d4e5f601234567'')
   \<and> map_of (sanitize example_env example_user) ''role'' = Some (VStr ''vendor'')"
proof -
  let ?req = "\<lparr>sr_name = ''Vera'', sr_email = ''V@X.com'', sr_password = ''pw123'', sr_role = ''vendor''\<rparr>"
  let ?sg = "signup example_env empty_db 1000 ''abcdefghijklmnopqrstuv'' ''65f0a1b2c3d4e5f601234567'' ?req"
  have sg: "?sg = (Inr (projr (fst ?sg)), snd ?sg)"
    unfolding signup_unfold by (simp add: signup_empty_db)
  have A: "\<exists>u \<in> set (example_db ''user''). sanitize example_env example_user = sanitize example_env u"
    using sanitized_views [where E = example_env and db = example_db and now = 1000
        and hdr = "Some (''Bearer '' @ example_token ''v@x.com'' ''vendor'')"
        and su = "sanitize example_env example_user" and db' = example_db]
      get_current_user_example
    by simp
  have B: "\<exists>doc. snd ?sg = empty_db(''user'' := empty_db ''user'' @ [doc])
         \<and> user (projr (fst ?sg)) = sanitize example_env doc
         \<and> map_of doc ''password_hash''
             = Some (VStr (hash_password example_env ''abcdefghijklmnopqrstuv'' ''pw123''))
         \<and> map_of doc ''_id'' = Some (VOid ''65f0a1b2c3d4e5f601234567'')"
    using sanitized_views [where E = example_env and db = empty_db and now = 1000
        and salt = "''abcdefghijklmnopqrstuv''" and oid = "''65f0a1b2c3d4e5f601234567''"
        and sreq = ?req and resp = "projr (fst ?sg)" and db' = "snd ?sg"] sg
    by simp
  have C: "map_of (sanitize example_env example_user) ''password_hash'' = None
     \<and> map_of (sanitize example_env example_user) ''_id'' = Some (VStr ''65f0a1b2c3d4e5f601234567'')
     \<and> map_of (sanitize example_env example_user) ''role'' = Some (VStr ''vendor'')"
    using sanitized_views [where E = example_env and u = example_user and k = "''role''"]
    by (simp add: py_in_def py_get_def py_get_default_def example_user_def)
  from A B C show ?thesis by blast
qed

section \<open>Properties of signup\<close>








lemma find_append_old: "List.find P xs = Some x \<Longrightarrow> List.find P (xs @ ys) = Some x"
  by (induction xs) (auto split: if_splits)









section \<open>Deactivated users\<close>

lemma get_current_user_bearer:
  "py_lower (fst (partition_space a)) = ''bearer'' \<Longrightarrow>
   decode_token E now (snd (partition_space a)) = Inr payload \<Longrightarrow>
   find_one db ''user'' [(''email'', py_get payload ''sub'')] = Some u \<Longrightarrow> u \<noteq> [] \<Longrightarrow>
   get_current_user E db now (Some a) = (Inr (sanitize E u), db)"
proof -
  assume h: "py_lower (fst (partition_space a)) = ''bearer''"
    "decode_token E now (snd (partition_space a)) = Inr payload"
    "find_one db ''user'' [(''email'', py_get payload ''sub'')] = Some u" "u \<noteq> []"
  have tok: "snd (partition_space a) \<noteq> []"
    using h(2) decode_token_Nil [of E now] by auto
  have a: "a \<noteq> []"
    using h(1) by (auto simp: partition_space_def py_lower_def)
  show ?thesis
    using h tok a by (auto simp: get_current_user_def Let_def split: prod.splits)
qed

text \<open>
  C10: the session resolver does not read \<^verbatim>\<open>is_active\<close>. For a stored user whose
  \<^verbatim>\<open>is_active\<close> is false and a header whose token decodes to that user's email,
  \<^verbatim>\<open>get_current_user\<close> returns the sanitized user with the stored role, and every
  handler behind the dependency runs on it, so its role gate decides as for an
  active user. Deactivation is enforced at \<^verbatim>\<open>login\<close>: with a verified password it
  answers 403 for such a user, and succeeds for a record without the field.
\<close>

theorem deactivated_user_keeps_access:
  "(py_lower (fst (partition_space a)) = ''bearer'' \<and>
      decode_token E now (snd (partition_space a)) = Inr payload \<and>
      find_one db ''user'' [(''email'', py_get payload ''sub'')] = Some u \<and> u \<noteq> [] \<and>
      \<not> truthy (py_get_default u ''is_active'' (VBool True)) \<longrightarrow>
        get_current_user E db now (Some a) = (Inr (sanitize E u), db)
        \<and> py_get (sanitize E u) ''role'' = py_get u ''role''
        \<and> Depends (get_current_user E db now (Some a)) handler = handler db (sanitize E u))
   \<and> (find_one db ''user'' [(''email'', VStr (py_lower (lr_email req)))] = Some v \<and>
      verify_password E (lr_password req) (py_get_default v ''password_hash'' (VStr [])) = Inr True \<longrightarrow>
        (\<not> truthy (py_get_default v ''is_active'' (VBool True)) \<longrightarrow>
           fst (login E db now req) = Inl (HTTPException 403 ''User deactivated''))
        \<and> (map_of v ''is_active'' = None \<longrightarrow> (\<exists>resp. fst (login E db now req) = Inr resp)))"
proof -
  have 1: "get_current_user E db now (Some a) = (Inr (sanitize E u), db)
        \<and> py_get (sanitize E u) ''role'' = py_get u ''role''
        \<and> Depends (get_current_user E db now (Some a)) handler = handler db (sanitize E u)"
    if "py_lower (fst (partition_space a)) = ''bearer''"
      "decode_token E now (snd (partition_space a)) = Inr payload"
      "find_one db ''user'' [(''email'', py_get payload ''sub'')] = Some u" "u \<noteq> []"
    using get_current_user_bearer [OF that]
    by (simp add: Depends_def py_get_sanitize)
  have 2: "(\<not> truthy (py_get_default v ''is_active'' (VBool True)) \<longrightarrow>
           fst (login E db now req) = Inl (HTTPException 403 ''User deactivated''))
        \<and> (map_of v ''is_active'' = None \<longrightarrow> (\<exists>resp. fst (login E db now req) = Inr resp))"
    if "find_one db ''user'' [(''email'', VStr (py_lower (lr_email req)))] = Some v"
      "verify_password E (lr_password req) (py_get_default v ''password_hash'' (VStr [])) = Inr True"
    unfolding login_unfold using that by (simp add: py_get_default_def)
  from 1 2 show ?thesis by blast
qed

lemma inactive_user_not_empty: "inactive_user \<noteq> []"
  by (simp add: inactive_user_def py_set_def example_user_def)

lemma inactive_role: "py_get inactive_user ''role'' = VStr ''vendor''"
  by (simp add: inactive_user_def py_set_def example_user_def py_get_def py_get_default_def)

lemma find_one_unflagged_user:
  "find_one unflagged_db ''user'' [(''email'', VStr ''v@x.com'')] = Some unflagged_user"
  by (simp add: find_one_def unflagged_db_def empty_db_def matches_def unflagged_user_def
      example_user_def py_pop_def)

lemma unflagged_password_hash:
  "py_get_default unflagged_user ''password_hash'' (VStr []) =
     VStr (hash_password example_env ''abcdefghijklmnopqrstuv'' ''pw123'')"
  by (simp add: py_get_default_def unflagged_user_def example_user_def py_pop_def)

lemma unflagged_is_active: "map_of unflagged_user ''is_active'' = None"
  by (simp add: unflagged_user_def example_user_def py_pop_def)

theorem deactivated_user_keeps_access_witness:
  "get_current_user example_env inactive_db 1000
       (Some (''Bearer '' @ example_token ''v@x.com'' ''vendor''))
     = (Inr (sanitize example_env inactive_user), inactive_db)
   \<and> py_get (sanitize example_env inactive_user) ''is_active'' = VBool False
   \<and> status (Depends (get_current_user example_env inactive_db 1000
                (Some (''Bearer '' @ example_token ''v@x.com'' ''vendor'')))
              (create_product example_env ''65f0a1b2c3d4e5f601234568'' example_payload)) = 200
   \<and> fst (login example_env inactive_db 1000 \<lparr>lr_email = ''v@x.com'', lr_password = ''pw123''\<rparr>)
     = Inl (HTTPException 403 ''User deactivated'')
   \<and> (\<exists>resp. fst (login example_env unflagged_db 1000
                    \<lparr>lr_email = ''v@x.com'', lr_password = ''pw123''\<rparr>) = Inr resp)"
proof -
  note t = deactivated_user_keeps_access [where E = example_env and now = 1000]
  have A: "get_current_user example_env inactive_db 1000
       (Some (''Bearer '' @ example_token ''v@x.com'' ''vendor''))
     = (Inr (sanitize example_env inactive_user), inactive_db)
     \<and> py_get (sanitize example_env inactive_user) ''role'' = py_get inactive_user ''role''
     \<and> Depends (get_current_user example_env inactive_db 1000
                (Some (''Bearer '' @ example_token ''v@x.com'' ''vendor'')))
          (create_product example_env ''65f0a1b2c3d4e5f601234568'' example_payload)
        = create_product example_env ''65f0a1b2c3d4e5f601234568'' example_payload inactive_db
            (sanitize example_env inactive_user)"
  proof -
    let ?a = "''Bearer '' @ example_token ''v@x.com'' ''vendor''"
    let ?p = "[(''sub'', VStr ''v@x.com''), (''role'', VStr ''vendor''), (''exp'', VInt 4600)]"
    have h1: "py_lower (fst (partition_space ?a)) = ''bearer''"
      by (simp only: partition_space_Bearer fst_conv py_lower_Bearer)
    have h2: "decode_token example_env 1000 (snd (partition_space ?a)) = Inr ?p"
      by (simp only: partition_space_Bearer snd_conv decode_example_token)
    have h3: "find_one inactive_db ''user'' [(''email'', py_get ?p ''sub'')] = Some inactive_user"
      by (simp add: py_get_def py_get_default_def find_one_inactive_user)
    have h5: "\<not> truthy (py_get_default inactive_user ''is_active'' (VBool True))"
      by (simp add: inactive_is_active)
    from t [where db = inactive_db and a = ?a and payload = ?p and u = inactive_user
        and handler = "create_product example_env ''65f0a1b2c3d4e5f601234568'' example_payload"]
      h1 h2 h3 inactive_user_not_empty h5
    show ?thesis by blast
  qed
  have B: "py_get (sanitize example_env inactive_user) ''is_active'' = VBool False"
    by (simp add: py_get_sanitize) (simp add: py_get_def py_get_default_def inactive_user_def py_set_def example_user_def)
  have C: "status (create_product example_env ''65f0a1b2c3d4e5f601234568'' example_payload inactive_db
            (sanitize example_env inactive_user)) = 200"
    using A inactive_role by (simp add: create_product_def)
  let ?req = "\<lparr>lr_email = ''v@x.com'', lr_password = ''pw123''\<rparr>"
  have D: "fst (login example_env inactive_db 1000 ?req) = Inl (HTTPException 403 ''User deactivated'')"
  proof -
    have f: "find_one inactive_db ''user'' [(''email'', VStr (py_lower (lr_email ?req)))] = Some inactive_user"
      by (simp add: py_lower_example_email' find_one_inactive_user)
    have v: "verify_password example_env (lr_password ?req)
        (py_get_default inactive_user ''password_hash'' (VStr [])) = Inr True"
      by (simp add: inactive_password_hash verify_example_right)
    have i: "\<not> truthy (py_get_default inactive_user ''is_active'' (VBool True))"
      by (simp add: inactive_is_active)
    from t [where db = inactive_db and req = ?req and v = inactive_user] f v i
    show ?thesis by blast
  qed
  have F: "\<exists>resp. fst (login example_env unflagged_db 1000 ?req) = Inr resp"
  proof -
    have f: "find_one unflagged_db ''user'' [(''email'', VStr (py_lower (lr_email ?req)))] = Some unflagged_user"
      by (simp add: py_lower_example_email' find_one_unflagged_user)
    have v: "verify_password example_env (lr_password ?req)
        (py_get_default unflagged_user ''password_hash'' (VStr [])) = Inr True"
      by (simp add: unflagged_password_hash verify_example_right)
    from t [where db = unflagged_db and req = ?req and v = unflagged_user] f v unflagged_is_active
    show ?thesis by blast
  qed
  have A1: "get_current_user example_env inactive_db 1000
       (Some (''Bearer '' @ example_token ''v@x.com'' ''vendor''))
     = (Inr (sanitize example_env inactive_user), inactive_db)"
    using A by blast
  have C1: "status (Depends (get_current_user example_env inactive_db 1000
                (Some (''Bearer '' @ example_token ''v@x.com'' ''vendor'')))
              (create_product example_env ''65f0a1b2c3d4e5f601234568'' example_payload)) = 200"
    using A C by metis
  from A1 B C1 D F show ?thesis by blast
qed

section \<open>Malformed digests\<close>

lemma find_one_unhashed_user:
  "find_one unhashed_db ''user'' [(''email'', VStr ''v@x.com'')] = Some unhashed_user"
  by (simp add: find_one_def unhashed_db_def empty_db_def matches_def unhashed_user_def
      example_user_def py_pop_def)

lemma unhashed_password_hash: "py_get_default unhashed_user ''password_hash'' (VStr []) = VStr []"
  by (simp add: py_get_default_def unhashed_user_def example_user_def py_pop_def)

text \<open>
  C9, where the code departs from the claim: \<^verbatim>\<open>verify_password\<close> hands the digest
  to \<^verbatim>\<open>pwd_context.verify\<close> and catches nothing, and for the empty digest the
  library raises instead of answering false. \<^verbatim>\<open>login\<close> passes the empty digest
  for a record without \<^verbatim>\<open>password_hash\<close>, so that request ends in an internal
  error, not in 401. (\<open>verify_hash_password\<close> above is the other half of the claim:
  a password verifies against its own hash.)
\<close>

theorem verify_password_raises_on_empty_digest:
  "verify_password E pw (VStr []) = Inl (ValueError ''hash could not be identified'')
   \<and> login example_env unhashed_db 1000 \<lparr>lr_email = ''v@x.com'', lr_password = ''pw123''\<rparr>
       = (Inl (ValueError ''hash could not be identified''), unhashed_db)
   \<and> status (login example_env unhashed_db 1000 \<lparr>lr_email = ''v@x.com'', lr_password = ''pw123''\<rparr>)
       = 500"
  unfolding login_unfold
  by (simp add: verify_password_empty py_lower_example_email' find_one_unhashed_user
      unhashed_password_hash status_def)

section \<open>The role given at signup\<close>




end
